theory Spec2Isabelle
  imports Main "HOL-Library.Word"
begin

section \<open>Session.cpp: a Session timed by an injected Clock\<close>

text \<open>
  The program consists of the abstract class \<open>Clock\<close>, three implementations
  (\<open>TimeClock\<close>, \<open>TenMinuteClock\<close>, \<open>MockClock<Length>\<close>), the class \<open>Session\<close> that holds
  a reference to a \<open>Clock\<close>, and \<open>SessionReport::displayTime\<close>, which is declared in
  \<open>SessionReport.hpp\<close> and used by \<open>main\<close>.
\<close>

subsection \<open>Timestamps and the environment\<close>

text \<open>
  \<open>std::time_t\<close> is the signed 64-bit integer of the LP64 platforms; \<open>sint\<close> reads a
  value, and \<open>-\<close> is the subtraction of the machine. The template parameter of
  \<open>MockClock\<close> is a 32-bit \<open>int\<close>.
\<close>

type_synonym time_t = "64 word"
type_synonym cpp_int = "32 word"

text \<open>
  The only thing the program reads from its environment is \<open>std::time(nullptr)\<close>: the
  calendar time at the moment of the call (or \<open>-1\<close> when it is not available). A
  \<open>world\<close> is the environment at the moment of one call; nothing relates the worlds of
  two calls.
\<close>

record world =
  calendar_time :: time_t

definition std_time :: "world \<Rightarrow> time_t" where
  "std_time w = calendar_time w"

subsection \<open>The Clock interface and its implementations\<close>

text \<open>
  \<open>class Clock\<close> has two pure virtual \<open>const\<close> member functions and no data. An
  implementation is the pair of its two functions; what a call returns depends on the
  environment at the moment of the call only.
\<close>

record Clock =
  start :: "world \<Rightarrow> time_t"
  stop :: "world \<Rightarrow> time_t"

text \<open>\<open>TimeClock::stop()\<close> returns \<open>std::time(nullptr)\<close>; \<open>TimeClock::start()\<close> returns
  \<open>stop()\<close>.\<close>

definition TimeClock_stop :: "world \<Rightarrow> time_t" where
  "TimeClock_stop w = std_time w"

definition TimeClock_start :: "world \<Rightarrow> time_t" where
  "TimeClock_start w = TimeClock_stop w"

definition TimeClock :: Clock where
  "TimeClock = \<lparr>start = TimeClock_start, stop = TimeClock_stop\<rparr>"

text \<open>\<open>TenMinuteClock\<close>: \<open>return 0;\<close> and \<open>return 60 * 10;\<close>, an \<open>int\<close> product converted to
  \<open>std::time_t\<close>.\<close>

definition TenMinuteClock :: Clock where
  "TenMinuteClock = \<lparr>start = (\<lambda>w. 0), stop = (\<lambda>w. scast (60 * 10 :: cpp_int))\<rparr>"

text \<open>\<open>MockClock<Length>\<close>: \<open>return 0;\<close> and \<open>return Length;\<close>.\<close>

definition MockClock :: "cpp_int \<Rightarrow> Clock" where
  "MockClock Length = \<lparr>start = (\<lambda>w. 0), stop = (\<lambda>w. scast Length)\<rparr>"

subsection \<open>Objects and references\<close>

text \<open>
  A \<open>Session\<close> stores \<open>const Clock& clock\<close>: a reference, not a copy. The store maps
  the address of every \<open>Clock\<close> object that is alive to the object; \<open>next_free\<close> is the
  address the next object gets. A call through a reference whose object is no longer
  alive, and the read of a member that was never given a value, have undefined
  behaviour: they are results of their own.
\<close>

type_synonym addr = nat

record store =
  objects :: "addr \<Rightarrow> Clock option"
  next_free :: addr

datatype undefined_behaviour = DanglingReference | IndeterminateValue

definition empty_store :: store where
  "empty_store = \<lparr>objects = (\<lambda>a. None), next_free = 0\<rparr>"

definition alloc :: "Clock \<Rightarrow> store \<Rightarrow> addr \<times> store" where
  "alloc c h =
     (next_free h, h\<lparr>objects := (objects h)(next_free h \<mapsto> c), next_free := Suc (next_free h)\<rparr>)"

definition destroy :: "addr \<Rightarrow> store \<Rightarrow> store" where
  "destroy a h = h\<lparr>objects := (objects h)(a := None)\<rparr>"

subsection \<open>Session\<close>

text \<open>
  The members of \<open>Session\<close>. The constructor initialises \<open>clock\<close> and \<open>start_time\<close>
  only; \<open>stop_time\<close> has no value (\<open>None\<close>) until \<open>stop()\<close> assigns one.
\<close>

record Session =
  clock :: addr
  start_time :: time_t
  stop_time :: "time_t option"

text \<open>\<open>Session(const Clock& clock) : clock(clock), start_time(clock.start())\<close>, called
  with a reference to the object at address \<open>a\<close>.\<close>

definition Session_ctor :: "store \<Rightarrow> world \<Rightarrow> addr \<Rightarrow> undefined_behaviour + Session" where
  "Session_ctor h w a =
     (case objects h a of
        None \<Rightarrow> Inl DanglingReference
      | Some c \<Rightarrow> Inr \<lparr>clock = a, start_time = start c w, stop_time = None\<rparr>)"

text \<open>
  \<open>Session s;\<close> uses the default argument \<open>TimeClock()\<close>: a temporary is created, the
  constructor runs with a reference to it, and the temporary is destroyed at the end of
  the declaration.
\<close>

definition Session_default :: "store \<Rightarrow> world \<Rightarrow> undefined_behaviour + (Session \<times> store)" where
  "Session_default h w =
     (case alloc TimeClock h of
        (tmp, h1) \<Rightarrow>
          (case Session_ctor h1 w tmp of
             Inl e \<Rightarrow> Inl e
           | Inr s \<Rightarrow> Inr (s, destroy tmp h1)))"

text \<open>\<open>void stop() { stop_time = clock.stop(); }\<close>\<close>

definition Session_stop :: "store \<Rightarrow> world \<Rightarrow> Session \<Rightarrow> undefined_behaviour + Session" where
  "Session_stop h w s =
     (case objects h (clock s) of
        None \<Rightarrow> Inl DanglingReference
      | Some c \<Rightarrow> Inr (s\<lparr>stop_time := Some (stop c w)\<rparr>))"

text \<open>\<open>std::time_t seconds() { return stop_time - start_time; }\<close>\<close>

definition Session_seconds :: "Session \<Rightarrow> undefined_behaviour + time_t" where
  "Session_seconds s =
     (case stop_time s of
        None \<Rightarrow> Inl IndeterminateValue
      | Some t \<Rightarrow> Inr (t - start_time s))"

subsection \<open>The blocks of \<open>main\<close>\<close>

definition and_then ::
  "undefined_behaviour + 'a \<Rightarrow> ('a \<Rightarrow> undefined_behaviour + 'b) \<Rightarrow> undefined_behaviour + 'b" where
  "and_then r f = (case r of Inl e \<Rightarrow> Inl e | Inr x \<Rightarrow> f x)"

text \<open>
  The second and third block: \<open>{ C clock; Session s(clock); s.stop(); ... s.seconds() ... }\<close>
  with \<open>C\<close> = \<open>TenMinuteClock\<close> and \<open>C\<close> = \<open>MockClock<10 * 60>\<close>. The clock is a named
  local that is alive until the block ends. \<open>w0\<close> is the environment when the Session
  is constructed, \<open>w1\<close> the one when it is stopped.
\<close>

definition main_mock_block ::
  "Clock \<Rightarrow> store \<Rightarrow> world \<Rightarrow> world \<Rightarrow> undefined_behaviour + time_t" where
  "main_mock_block c h w0 w1 =
     (case alloc c h of
        (a, h1) \<Rightarrow>
          and_then (Session_ctor h1 w0 a) (\<lambda>s.
          and_then (Session_stop h1 w1 s) Session_seconds))"

text \<open>The first block: \<open>{ Session s; sleep(2); s.stop(); ... s.seconds() ... }\<close>.\<close>

definition main_default_block :: "store \<Rightarrow> world \<Rightarrow> world \<Rightarrow> undefined_behaviour + time_t" where
  "main_default_block h w0 w1 =
     and_then (Session_default h w0) (\<lambda>(s, h1).
     and_then (Session_stop h1 w1 s) Session_seconds)"

subsection \<open>Two Sessions side by side\<close>

text \<open>
  A caller that owns two Session objects and calls \<open>stop()\<close> on them in any order:
  each call names the object it is made on and happens in an environment of its own.
  \<open>stops\<close> is the same for a caller that owns one Session.
\<close>

datatype which = First | Second

fun stop_call ::
  "store \<Rightarrow> which \<times> world \<Rightarrow> Session \<times> Session \<Rightarrow> undefined_behaviour + Session \<times> Session" where
  "stop_call h (First, w) (s1, s2) = and_then (Session_stop h w s1) (\<lambda>s1'. Inr (s1', s2))"
| "stop_call h (Second, w) (s1, s2) = and_then (Session_stop h w s2) (\<lambda>s2'. Inr (s1, s2'))"

fun stop_calls ::
  "store \<Rightarrow> (which \<times> world) list \<Rightarrow> Session \<times> Session \<Rightarrow> undefined_behaviour + Session \<times> Session" where
  "stop_calls h [] ss = Inr ss"
| "stop_calls h (c # cs) ss = and_then (stop_call h c ss) (stop_calls h cs)"

fun stops :: "store \<Rightarrow> world list \<Rightarrow> Session \<Rightarrow> undefined_behaviour + Session" where
  "stops h [] s = Inr s"
| "stops h (w # ws) s = and_then (Session_stop h w s) (stops h ws)"

definition calls_on :: "which \<Rightarrow> (which \<times> world) list \<Rightarrow> world list" where
  "calls_on k cs = map snd (filter (\<lambda>c. fst c = k) cs)"

subsection \<open>The duration formatter\<close>

text \<open>
  Modelled from the spec: \<open>SessionReport::displayTime\<close>, declared in
  \<open>SessionReport.hpp\<close>, which is not among the sources. The spec defines it on the
  non-negative integers: \<open>hours = totalSeconds / 3600\<close>,
  \<open>minutes = (totalSeconds % 3600) / 60\<close>, \<open>seconds = totalSeconds % 60\<close>, each written
  in decimal, padded with zeros to two digits, and joined by colons.
\<close>

definition digit_char :: "nat \<Rightarrow> char" where
  "digit_char d = ''0123456789'' ! d"

fun decimal :: "nat \<Rightarrow> string" where
  "decimal n = (if n < 10 then [digit_char n] else decimal (n div 10) @ [digit_char (n mod 10)])"

declare decimal.simps [simp del]

definition zero_padded :: "nat \<Rightarrow> string" where
  "zero_padded n = (let ds = decimal n in replicate (2 - length ds) (CHR ''0'') @ ds)"

definition displayTime :: "nat \<Rightarrow> string" where
  "displayTime totalSeconds =
     (let hours = totalSeconds div 3600;
          minutes = (totalSeconds mod 3600) div 60;
          seconds = totalSeconds mod 60
      in zero_padded hours @ '':'' @ zero_padded minutes @ '':'' @ zero_padded seconds)"

text \<open>Reading a formatted duration back: two decimal digits per field, colons between.\<close>

definition digit_value :: "char \<Rightarrow> nat option" where
  "digit_value c =
     (let n = of_char c :: nat in if 48 \<le> n \<and> n \<le> 57 then Some (n - 48) else None)"

fun parse_field :: "char \<Rightarrow> char \<Rightarrow> nat option" where
  "parse_field a b =
     (case (digit_value a, digit_value b) of
        (Some x, Some y) \<Rightarrow> Some (10 * x + y)
      | _ \<Rightarrow> None)"

fun parseTime :: "string \<Rightarrow> (nat \<times> nat \<times> nat) option" where
  "parseTime [h1, h2, c1, m1, m2, c2, s1, s2] =
     (if c1 = CHR '':'' \<and> c2 = CHR '':'' then
        (case (parse_field h1 h2, parse_field m1 m2, parse_field s1 s2) of
           (Some h, Some m, Some s) \<Rightarrow> Some (h, m, s)
         | _ \<Rightarrow> None)
      else None)"
| "parseTime _ = None"

section \<open>The duration formatter\<close>

lemma digit_value_digit_char: "d < 10 \<Longrightarrow> digit_value (digit_char d) = Some d"
proof -
  assume "d < 10"
  then have "d \<in> {0, 1, 2, 3, 4, 5, 6, 7, 8, 9}" by auto
  then show ?thesis by (auto simp: digit_value_def digit_char_def)
qed

lemma zero_padded_small:
  "n < 100 \<Longrightarrow> zero_padded n = [digit_char (n div 10), digit_char (n mod 10)]"
  by (auto simp: zero_padded_def decimal.simps [of n] decimal.simps [of "n div 10"] Let_def
      digit_char_def)

lemma parse_zero_padded:
  "n < 100 \<Longrightarrow> parse_field (digit_char (n div 10)) (digit_char (n mod 10)) = Some n"
  by (simp add: digit_value_digit_char)

lemma displayTime_shape:
  "displayTime t =
     zero_padded (t div 3600) @
     [CHR '':'', digit_char (t mod 3600 div 60 div 10), digit_char (t mod 3600 div 60 mod 10),
      CHR '':'', digit_char (t mod 60 div 10), digit_char (t mod 60 mod 10)]"
  by (simp add: displayTime_def zero_padded_small Let_def)

lemma hours_minutes_seconds_sum:
  "(t :: nat) div 3600 * 3600 + t mod 3600 div 60 * 60 + t mod 60 = t"
proof -
  have "t mod 3600 mod 60 = t mod 60" by (simp add: mod_mod_cancel)
  then have a: "t mod 3600 div 60 * 60 + t mod 60 = t mod 3600"
    by (metis div_mult_mod_eq)
  have b: "t div 3600 * 3600 + t mod 3600 = t"
    by (rule div_mult_mod_eq)
  from a b show ?thesis by linarith
qed

text \<open>
  C1: for every \<open>s < 360000\<close> the string \<open>displayTime s\<close> has exactly 8 characters, it
  has the shape of two decimal digits, a colon, two digits, a colon, two digits (that is
  what \<open>parseTime\<close> accepts), and the three numbers read back from it satisfy
  \<open>hours * 3600 + minutes * 60 + seconds = s\<close>.
\<close>

theorem displayTime_roundtrip:
  assumes "s < 360000"
  shows "length (displayTime s) = 8 \<and>
         (\<exists>hours minutes seconds.
            parseTime (displayTime s) = Some (hours, minutes, seconds) \<and>
            hours < 100 \<and> minutes < 60 \<and> seconds < 60 \<and>
            hours * 3600 + minutes * 60 + seconds = s)"
proof -
  from assms have h: "s div 3600 < 100" by simp
  have m: "s mod 3600 div 60 < 100" by (simp add: less_mult_imp_div_less)
  have m60: "s mod 3600 div 60 < 60" by (simp add: less_mult_imp_div_less)
  have len: "length (displayTime s) = 8"
    using h by (simp add: displayTime_shape zero_padded_small)
  have parse: "parseTime (displayTime s) = Some (s div 3600, s mod 3600 div 60, s mod 60)"
    using h m
    by (simp add: displayTime_shape zero_padded_small parse_zero_padded del: parse_field.simps)
  from len parse h m60 hours_minutes_seconds_sum [of s] show ?thesis
    by simp
qed

theorem displayTime_roundtrip_witness:
  "(3725 :: nat) < 360000 \<and> displayTime 3725 = ''01:02:05'' \<and>
   parseTime (displayTime 3725) = Some (1, 2, 5) \<and> 1 * 3600 + 2 * 60 + 5 = (3725 :: nat)"
  using displayTime_roundtrip [of 3725]
  by (simp add: displayTime_def zero_padded_def decimal.simps digit_char_def digit_value_def)

text \<open>
  C2: for every \<open>totalSeconds\<close>, \<open>displayTime totalSeconds\<close> is the three numbers
  \<open>totalSeconds div 3600\<close>, \<open>totalSeconds mod 3600 div 60\<close> and \<open>totalSeconds mod 60\<close>,
  each zero-padded to two digits, joined by colons; the minutes and the seconds always
  take exactly two digits. In particular \<open>displayTime 2 = "00:00:02"\<close> and
  \<open>displayTime 600 = "00:10:00"\<close>.
\<close>

theorem displayTime_fields:
  "displayTime totalSeconds =
     zero_padded (totalSeconds div 3600) @ '':'' @
     zero_padded (totalSeconds mod 3600 div 60) @ '':'' @
     zero_padded (totalSeconds mod 60) \<and>
   zero_padded (totalSeconds mod 3600 div 60) =
     [digit_char (totalSeconds mod 3600 div 60 div 10),
      digit_char (totalSeconds mod 3600 div 60 mod 10)] \<and>
   zero_padded (totalSeconds mod 60) =
     [digit_char (totalSeconds mod 60 div 10), digit_char (totalSeconds mod 60 mod 10)] \<and>
   displayTime 2 = ''00:00:02'' \<and>
   displayTime 600 = ''00:10:00''"
proof -
  have "displayTime 2 = ''00:00:02''"
    by (simp add: displayTime_def zero_padded_def decimal.simps digit_char_def)
  moreover have "displayTime 600 = ''00:10:00''"
    by (simp add: displayTime_def zero_padded_def decimal.simps digit_char_def)
  moreover have "displayTime totalSeconds =
     zero_padded (totalSeconds div 3600) @ '':'' @
     zero_padded (totalSeconds mod 3600 div 60) @ '':'' @
     zero_padded (totalSeconds mod 60)"
    by (simp add: displayTime_def Let_def)
  ultimately show ?thesis
    by (simp add: zero_padded_small)
qed

section \<open>Session\<close>

lemma and_then_Inr [simp]: "and_then (Inr x) f = f x"
  by (simp add: and_then_def)

lemma and_then_Inl [simp]: "and_then (Inl e) f = Inl e"
  by (simp add: and_then_def)

lemma Session_ctor_alive:
  "objects h a = Some c \<Longrightarrow>
     Session_ctor h w a = Inr \<lparr>clock = a, start_time = start c w, stop_time = None\<rparr>"
  by (simp add: Session_ctor_def)

lemma Session_stop_alive:
  "objects h (clock s) = Some c \<Longrightarrow>
     Session_stop h w s = Inr (s\<lparr>stop_time := Some (stop c w)\<rparr>)"
  by (simp add: Session_stop_def)

lemma Session_stop_InrD:
  "Session_stop h w s = Inr s' \<Longrightarrow>
     \<exists>c. objects h (clock s) = Some c \<and> s' = s\<lparr>stop_time := Some (stop c w)\<rparr>"
  by (auto simp: Session_stop_def split: option.splits)

lemma Session_seconds_stopped:
  "stop_time s = Some t \<Longrightarrow> Session_seconds s = Inr (t - start_time s)"
  by (simp add: Session_seconds_def)

lemma sint_diff_in_range:
  fixes a b :: time_t
  assumes "- (2 ^ 63) \<le> sint a - sint b" and "sint a - sint b < 2 ^ 63"
  shows "sint (a - b) = sint a - sint b"
  using assms by (simp add: sint_word_ariths signed_take_bit_int_eq_self)

lemma main_ten_minute_block: "main_mock_block TenMinuteClock h w0 w1 = Inr 600"
  by (simp add: main_mock_block_def alloc_def Session_ctor_def Session_stop_def
      Session_seconds_def TenMinuteClock_def)

lemma main_mock_clock_block: "main_mock_block (MockClock (10 * 60)) h w0 w1 = Inr 600"
  by (simp add: main_mock_block_def alloc_def Session_ctor_def Session_stop_def
      Session_seconds_def MockClock_def)

text \<open>
  C3: a Session constructed on a Clock whose \<open>start()\<close> is always 0 and whose \<open>stop()\<close>
  is always 600 reports \<open>seconds() = 600\<close> after \<open>stop()\<close>, whatever the environment
  (the wall-clock time) is at construction (\<open>w0\<close>) and at the call of \<open>stop()\<close> (\<open>w1\<close>).
  The Clock object is alive at both moments, in the stores \<open>h0\<close> and \<open>h1\<close>.
\<close>

theorem stub_clock_session_seconds:
  assumes "objects h0 a = Some c" and "objects h1 a = Some c"
    and "\<And>w. start c w = 0" and "\<And>w. stop c w = 600"
  shows "\<exists>s s'. Session_ctor h0 w0 a = Inr s \<and> Session_stop h1 w1 s = Inr s' \<and>
           Session_seconds s' = Inr 600"
  using assms by (simp add: Session_ctor_alive Session_stop_alive Session_seconds_stopped)

theorem stub_clock_session_seconds_witness:
  "\<exists>s s'. Session_ctor (snd (alloc TenMinuteClock empty_store)) \<lparr>calendar_time = 1000\<rparr> 0 = Inr s \<and>
      Session_stop (snd (alloc TenMinuteClock empty_store)) \<lparr>calendar_time = 5000\<rparr> s = Inr s' \<and>
      Session_seconds s' = Inr 600"
proof -
  have alive: "objects (snd (alloc TenMinuteClock empty_store)) 0 = Some TenMinuteClock"
    by (simp add: alloc_def empty_store_def)
  have st: "\<And>w. start TenMinuteClock w = 0" by (simp add: TenMinuteClock_def)
  have sp: "\<And>w. stop TenMinuteClock w = 600" by (simp add: TenMinuteClock_def)
  show ?thesis
    by (rule stub_clock_session_seconds [OF alive alive st sp])
qed

text \<open>
  C4: on a Session on which \<open>stop()\<close> has been called (\<open>s'\<close> is what a call of
  \<open>stop()\<close> left), \<open>seconds()\<close> returns exactly \<open>stop_time - start_time\<close>, the
  difference of the reading \<open>stop c w\<close> and the start time; read as signed numbers it is
  the difference of the two numbers whenever that difference is a \<open>std::time_t\<close>.
  Nothing is clamped: there are a Clock whose \<open>stop()\<close> value is smaller than its
  \<open>start()\<close> value and a Session on it whose \<open>seconds()\<close> is negative.
\<close>

theorem seconds_is_difference:
  assumes "Session_stop h w s = Inr s'"
  shows "(\<exists>c t. objects h (clock s) = Some c \<and> t = stop c w \<and> stop_time s' = Some t \<and>
            start_time s' = start_time s \<and>
            Session_seconds s' = Inr (t - start_time s') \<and>
            (- (2 ^ 63) \<le> sint t - sint (start_time s') \<and>
             sint t - sint (start_time s') < 2 ^ 63 \<longrightarrow>
               sint (t - start_time s') = sint t - sint (start_time s'))) \<and>
         (\<exists>c0 h0 a0 w0 w1 s0 s1 d.
            objects h0 a0 = Some c0 \<and> sint (stop c0 w1) < sint (start c0 w0) \<and>
            Session_ctor h0 w0 a0 = Inr s0 \<and> Session_stop h0 w1 s0 = Inr s1 \<and>
            Session_seconds s1 = Inr d \<and> sint d < 0)"
proof
  from assms obtain c :: Clock
    where c: "objects h (clock s) = Some c" "s' = s\<lparr>stop_time := Some (stop c w)\<rparr>"
    by (auto dest: Session_stop_InrD)
  then show "\<exists>c t. objects h (clock s) = Some c \<and> t = stop c w \<and> stop_time s' = Some t \<and>
            start_time s' = start_time s \<and>
            Session_seconds s' = Inr (t - start_time s') \<and>
            (- (2 ^ 63) \<le> sint t - sint (start_time s') \<and>
             sint t - sint (start_time s') < 2 ^ 63 \<longrightarrow>
               sint (t - start_time s') = sint t - sint (start_time s'))"
    by (simp add: Session_seconds_stopped sint_diff_in_range)
next
  let ?c = "MockClock (- 5)"
  let ?h = "snd (alloc ?c empty_store)"
  let ?w = "\<lparr>calendar_time = 0\<rparr>"
  have "objects ?h 0 = Some ?c"
    by (simp add: alloc_def empty_store_def)
  moreover have "sint (stop ?c ?w) < sint (start ?c ?w)"
    by (simp add: MockClock_def)
  moreover have "Session_ctor ?h ?w 0 = Inr \<lparr>clock = 0, start_time = 0, stop_time = None\<rparr>"
    by (simp add: Session_ctor_def alloc_def empty_store_def MockClock_def)
  moreover have "Session_stop ?h ?w \<lparr>clock = 0, start_time = 0, stop_time = None\<rparr>
      = Inr \<lparr>clock = 0, start_time = 0, stop_time = Some (- 5)\<rparr>"
    by (simp add: Session_stop_def alloc_def empty_store_def MockClock_def)
  moreover have "Session_seconds \<lparr>clock = 0, start_time = 0, stop_time = Some (- 5)\<rparr> = Inr (- 5)"
    by (simp add: Session_seconds_def)
  moreover have "sint (- 5 :: time_t) < 0"
    by simp
  ultimately show "\<exists>c0 h0 a0 w0 w1 s0 s1 d.
            objects h0 a0 = Some c0 \<and> sint (stop c0 w1) < sint (start c0 w0) \<and>
            Session_ctor h0 w0 a0 = Inr s0 \<and> Session_stop h0 w1 s0 = Inr s1 \<and>
            Session_seconds s1 = Inr d \<and> sint d < 0"
    by blast
qed

text \<open>An instance: the wall clock is set back from 100 to 40 while a Session on a
  \<open>TimeClock\<close> runs; \<open>seconds()\<close> is \<open>-60\<close>.\<close>

theorem seconds_is_difference_witness:
  "Session_stop (snd (alloc TimeClock empty_store)) \<lparr>calendar_time = 40\<rparr>
     \<lparr>clock = 0, start_time = 100, stop_time = None\<rparr> =
     Inr \<lparr>clock = 0, start_time = 100, stop_time = Some 40\<rparr> \<and>
   Session_seconds \<lparr>clock = 0, start_time = 100, stop_time = Some 40\<rparr> = Inr (- 60) \<and>
   sint (- 60 :: time_t) = - 60"
proof -
  have stopped: "Session_stop (snd (alloc TimeClock empty_store)) \<lparr>calendar_time = 40\<rparr>
     \<lparr>clock = 0, start_time = 100, stop_time = None\<rparr> =
     Inr \<lparr>clock = 0, start_time = 100, stop_time = Some 40\<rparr>"
    by (simp add: Session_stop_def alloc_def empty_store_def TimeClock_def TimeClock_stop_def
        std_time_def)
  from seconds_is_difference [OF stopped] stopped show ?thesis
    by (simp add: Session_seconds_def)
qed

text \<open>
  C5: \<open>Session s;\<close> takes \<open>start_time\<close> from a \<open>TimeClock\<close>, but the \<open>TimeClock\<close> it
  refers to is the temporary of the default argument, which is destroyed when the
  declaration ends: in the store that the declaration leaves, the reference \<open>clock\<close> is
  dangling, a later \<open>stop()\<close> has undefined behaviour, and so has the first block of
  \<open>main\<close>. The \<open>TimeClock\<close> is not the time source for the whole life of the Session.
\<close>

theorem default_session_clock_dangles:
  "(\<exists>s h1. Session_default h w0 = Inr (s, h1) \<and> start_time s = std_time w0 \<and>
      objects h1 (clock s) = None \<and> Session_stop h1 w1 s = Inl DanglingReference) \<and>
   main_default_block h w0 w1 = Inl DanglingReference"
  by (simp add: main_default_block_def Session_default_def alloc_def destroy_def
      Session_ctor_def Session_stop_def TimeClock_def TimeClock_start_def TimeClock_stop_def)

text \<open>
  C6: a call of \<open>stop()\<close> on a Session whose Clock \<open>c\<close> is alive sets \<open>stop_time\<close> to
  the reading \<open>stop c w1\<close> taken in the environment of the call and leaves \<open>clock\<close> and
  \<open>start_time\<close> as they were (the store is no result of \<open>Session_stop\<close>: it is not
  written). A second call overwrites \<open>stop_time\<close> with its own reading \<open>stop c w2\<close>,
  and \<open>seconds()\<close> afterwards is computed from that last reading.
\<close>

theorem stop_overwrites_stop_time:
  assumes "objects h1 (clock s) = Some c" and "objects h2 (clock s) = Some c"
  shows "\<exists>s1 s2.
           Session_stop h1 w1 s = Inr s1 \<and> s1 = s\<lparr>stop_time := Some (stop c w1)\<rparr> \<and>
           clock s1 = clock s \<and> start_time s1 = start_time s \<and>
           Session_stop h2 w2 s1 = Inr s2 \<and> s2 = s\<lparr>stop_time := Some (stop c w2)\<rparr> \<and>
           clock s2 = clock s \<and> start_time s2 = start_time s \<and>
           Session_seconds s2 = Inr (stop c w2 - start_time s)"
  using assms by (simp add: Session_stop_alive Session_seconds_stopped)

theorem stop_overwrites_stop_time_witness:
  "\<exists>s1 s2.
     Session_stop (snd (alloc TimeClock empty_store)) \<lparr>calendar_time = 100\<rparr>
       \<lparr>clock = 0, start_time = 40, stop_time = None\<rparr> = Inr s1 \<and>
     s1 = \<lparr>clock = 0, start_time = 40, stop_time = Some 100\<rparr> \<and>
     Session_stop (snd (alloc TimeClock empty_store)) \<lparr>calendar_time = 250\<rparr> s1 = Inr s2 \<and>
     s2 = \<lparr>clock = 0, start_time = 40, stop_time = Some 250\<rparr> \<and>
     Session_seconds s2 = Inr 210"
proof -
  have alive: "objects (snd (alloc TimeClock empty_store))
      (clock \<lparr>clock = 0, start_time = 40, stop_time = None\<rparr>) = Some TimeClock"
    by (simp add: alloc_def empty_store_def)
  from stop_overwrites_stop_time [OF alive alive,
      of "\<lparr>calendar_time = 100\<rparr>" "\<lparr>calendar_time = 250\<rparr>"]
  show ?thesis
    by (simp add: TimeClock_def TimeClock_stop_def std_time_def)
qed

section \<open>Independent Sessions\<close>

lemma stops_alive:
  "objects h (clock s) = Some c \<Longrightarrow>
     stops h ws s = Inr (if ws = [] then s else s\<lparr>stop_time := Some (stop c (last ws))\<rparr>)"
proof (induction ws arbitrary: s)
  case Nil
  then show ?case by simp
next
  case (Cons w ws)
  have "objects h (clock (s\<lparr>stop_time := Some (stop c w)\<rparr>)) = Some c"
    using Cons.prems by simp
  from Cons.IH [OF this] Cons.prems show ?case
    by (simp add: Session_stop_alive)
qed

lemma stop_calls_split:
  assumes "objects h (clock s1) = Some c1" and "objects h (clock s2) = Some c2"
  shows "\<exists>t1 t2. stop_calls h cs (s1, s2) = Inr (t1, t2) \<and>
           stops h (calls_on First cs) s1 = Inr t1 \<and> stops h (calls_on Second cs) s2 = Inr t2"
  using assms
proof (induction cs arbitrary: s1 s2)
  case Nil
  then show ?case by (simp add: calls_on_def)
next
  case (Cons call cs)
  obtain k w where call: "call = (k, w)" by (cases call)
  show ?case
  proof (cases k)
    case First
    have "objects h (clock (s1\<lparr>stop_time := Some (stop c1 w)\<rparr>)) = Some c1"
      using Cons.prems by simp
    from Cons.IH [OF this Cons.prems(2)] Cons.prems call First show ?thesis
      by (simp add: Session_stop_alive calls_on_def)
  next
    case Second
    have "objects h (clock (s2\<lparr>stop_time := Some (stop c2 w)\<rparr>)) = Some c2"
      using Cons.prems by simp
    from Cons.IH [OF Cons.prems(1) this] Cons.prems call Second show ?thesis
      by (simp add: Session_stop_alive calls_on_def)
  qed
qed

text \<open>
  C7: let two Clock objects \<open>MockClock<A>\<close> and \<open>MockClock<B>\<close> be alive at the
  addresses \<open>a\<close> and \<open>b\<close>, and let one Session be constructed on each. Then, for every
  sequence \<open>cs\<close> of \<open>stop()\<close> calls on the two Sessions, in any order and in any
  environments: all calls return; what they leave of the first Session is what its own
  calls alone leave of it (\<open>stops h (calls_on First cs) s1\<close>), and likewise for the
  second, so no call on one Session changes the other; and a Session that was stopped at
  least once reports its own duration, \<open>A\<close> for the first and \<open>B\<close> for the second.
\<close>

theorem mock_sessions_independent:
  assumes "objects h a = Some (MockClock A)" and "objects h b = Some (MockClock B)"
  shows "\<exists>s1 s2. Session_ctor h wa a = Inr s1 \<and> Session_ctor h wb b = Inr s2 \<and>
           (\<forall>cs. \<exists>t1 t2. stop_calls h cs (s1, s2) = Inr (t1, t2) \<and>
              stops h (calls_on First cs) s1 = Inr t1 \<and>
              stops h (calls_on Second cs) s2 = Inr t2 \<and>
              (calls_on First cs \<noteq> [] \<longrightarrow> Session_seconds t1 = Inr (scast A)) \<and>
              (calls_on Second cs \<noteq> [] \<longrightarrow> Session_seconds t2 = Inr (scast B)))"
proof -
  let ?s1 = "\<lparr>clock = a, start_time = 0, stop_time = None\<rparr>"
  let ?s2 = "\<lparr>clock = b, start_time = 0, stop_time = None\<rparr>"
  have c1: "Session_ctor h wa a = Inr ?s1"
    using assms(1) by (simp add: Session_ctor_alive MockClock_def)
  have c2: "Session_ctor h wb b = Inr ?s2"
    using assms(2) by (simp add: Session_ctor_alive MockClock_def)
  have a1: "objects h (clock ?s1) = Some (MockClock A)"
    using assms(1) by simp
  have a2: "objects h (clock ?s2) = Some (MockClock B)"
    using assms(2) by simp
  have "\<exists>t1 t2. stop_calls h cs (?s1, ?s2) = Inr (t1, t2) \<and>
              stops h (calls_on First cs) ?s1 = Inr t1 \<and>
              stops h (calls_on Second cs) ?s2 = Inr t2 \<and>
              (calls_on First cs \<noteq> [] \<longrightarrow> Session_seconds t1 = Inr (scast A)) \<and>
              (calls_on Second cs \<noteq> [] \<longrightarrow> Session_seconds t2 = Inr (scast B))" for cs
  proof -
    from stop_calls_split [OF a1 a2, of cs] obtain t1 t2 where
      r: "stop_calls h cs (?s1, ?s2) = Inr (t1, t2)"
        "stops h (calls_on First cs) ?s1 = Inr t1" "stops h (calls_on Second cs) ?s2 = Inr t2"
      by blast
    have "calls_on First cs \<noteq> [] \<Longrightarrow> Session_seconds t1 = Inr (scast A)"
      using r(2) stops_alive [OF a1, of "calls_on First cs"]
      by (auto simp: Session_seconds_def MockClock_def)
    moreover have "calls_on Second cs \<noteq> [] \<Longrightarrow> Session_seconds t2 = Inr (scast B)"
      using r(3) stops_alive [OF a2, of "calls_on Second cs"]
      by (auto simp: Session_seconds_def MockClock_def)
    ultimately show ?thesis using r by blast
  qed
  with c1 c2 show ?thesis by blast
qed

text \<open>An instance: \<open>MockClock<600>\<close> at address 0 and \<open>MockClock<120>\<close> at address 1; the
  first Session is stopped, then the second, then the first again.\<close>

theorem mock_sessions_independent_witness:
  "Session_ctor (snd (alloc (MockClock 120) (snd (alloc (MockClock 600) empty_store))))
     \<lparr>calendar_time = 7\<rparr> 0 = Inr \<lparr>clock = 0, start_time = 0, stop_time = None\<rparr> \<and>
   Session_ctor (snd (alloc (MockClock 120) (snd (alloc (MockClock 600) empty_store))))
     \<lparr>calendar_time = 8\<rparr> 1 = Inr \<lparr>clock = 1, start_time = 0, stop_time = None\<rparr> \<and>
   stop_calls (snd (alloc (MockClock 120) (snd (alloc (MockClock 600) empty_store))))
     [(First, \<lparr>calendar_time = 9\<rparr>), (Second, \<lparr>calendar_time = 10\<rparr>),
      (First, \<lparr>calendar_time = 11\<rparr>)]
     (\<lparr>clock = 0, start_time = 0, stop_time = None\<rparr>,
      \<lparr>clock = 1, start_time = 0, stop_time = None\<rparr>) =
     Inr (\<lparr>clock = 0, start_time = 0, stop_time = Some 600\<rparr>,
          \<lparr>clock = 1, start_time = 0, stop_time = Some 120\<rparr>) \<and>
   Session_seconds \<lparr>clock = 0, start_time = 0, stop_time = Some 600\<rparr> = Inr 600 \<and>
   Session_seconds \<lparr>clock = 1, start_time = 0, stop_time = Some 120\<rparr> = Inr 120"
proof -
  let ?h = "snd (alloc (MockClock 120) (snd (alloc (MockClock 600) empty_store)))"
  have a: "objects ?h 0 = Some (MockClock 600)"
    by (simp add: alloc_def empty_store_def)
  have b: "objects ?h 1 = Some (MockClock 120)"
    by (simp add: alloc_def empty_store_def)
  from mock_sessions_independent [OF a b, of "\<lparr>calendar_time = 7\<rparr>" "\<lparr>calendar_time = 8\<rparr>"]
  show ?thesis
    by (simp add: Session_ctor_def Session_stop_def Session_seconds_def MockClock_def
        alloc_def empty_store_def)
qed

text \<open>
  C10: \<open>TenMinuteClock\<close> and \<open>MockClock<600>\<close> return the same values, 0 from \<open>start()\<close>
  and 600 from \<open>stop()\<close>, in every environment; the constructor and \<open>stop()\<close> of a
  Session give the same result whether the object at the address \<open>a\<close> is the one or the
  other (\<open>seconds()\<close> does not look at the Clock), and so does the block of \<open>main\<close>.
\<close>

theorem TenMinuteClock_MockClock_600_equivalent:
  "start TenMinuteClock w = 0 \<and> stop TenMinuteClock w = 600 \<and>
   start (MockClock 600) w = 0 \<and> stop (MockClock 600) w = 600 \<and>
   Session_ctor (h\<lparr>objects := (objects h)(a \<mapsto> TenMinuteClock)\<rparr>) w a =
     Session_ctor (h\<lparr>objects := (objects h)(a \<mapsto> MockClock 600)\<rparr>) w a \<and>
   Session_stop (h\<lparr>objects := (objects h)(a \<mapsto> TenMinuteClock)\<rparr>) w s =
     Session_stop (h\<lparr>objects := (objects h)(a \<mapsto> MockClock 600)\<rparr>) w s \<and>
   main_mock_block TenMinuteClock h w0 w1 = main_mock_block (MockClock 600) h w0 w1"
  by (simp add: TenMinuteClock_def MockClock_def Session_ctor_def Session_stop_def
      main_mock_block_def)

section \<open>The default-constructed Session in use\<close>

text \<open>
  C8: not every operation returns a value. At the declaration \<open>Session s;\<close> in the
  empty store, at calendar time 1000, the constructor returns a Session with
  \<open>start_time = 1000\<close> and leaves the store in which the temporary \<open>TimeClock\<close> at
  address 0 is destroyed. In that store \<open>s.stop()\<close>, called at calendar time 1002, is a
  call through a dangling reference: it has no value to return.
\<close>

theorem default_session_stop_returns_no_value:
  "Session_default empty_store \<lparr>calendar_time = 1000\<rparr> =
     Inr (\<lparr>clock = 0, start_time = 1000, stop_time = None\<rparr>,
          destroy 0 (snd (alloc TimeClock empty_store))) \<and>
   objects (destroy 0 (snd (alloc TimeClock empty_store))) 0 = None \<and>
   Session_stop (destroy 0 (snd (alloc TimeClock empty_store))) \<lparr>calendar_time = 1002\<rparr>
     \<lparr>clock = 0, start_time = 1000, stop_time = None\<rparr> = Inl DanglingReference"
  by (simp add: Session_default_def Session_ctor_def Session_stop_def alloc_def destroy_def
      empty_store_def TimeClock_def TimeClock_start_def TimeClock_stop_def std_time_def)

section \<open>A delay measured with the real clock\<close>

text \<open>
  A delay of \<open>d\<close> seconds, as the real clock shows it: the calendar time read when
  \<open>stop()\<close> is called is the one read at construction plus \<open>d\<close>. A Session on a
  \<open>TimeClock\<close> object that is alive at both calls then reports exactly \<open>d\<close>, and with it
  every bound \<open>D \<le> d \<le> D + eps\<close> that the delay satisfies.
\<close>

lemma time_clock_session_delay:
  assumes "objects h0 a = Some TimeClock" and "objects h1 a = Some TimeClock"
    and "calendar_time w1 = calendar_time w0 + d"
    and "sint D \<le> sint d" and "sint d \<le> sint D + sint eps"
  shows "\<exists>s s' r. Session_ctor h0 w0 a = Inr s \<and> Session_stop h1 w1 s = Inr s' \<and>
           Session_seconds s' = Inr r \<and> r = d \<and> sint D \<le> sint r \<and> sint r \<le> sint D + sint eps"
  using assms
  by (simp add: Session_ctor_alive Session_stop_alive Session_seconds_stopped TimeClock_def
      TimeClock_start_def TimeClock_stop_def std_time_def)

text \<open>
  C9: a delay of 2 seconds on the real clock, from calendar time 1000 to 1002. The
  block \<open>{ TimeClock clock; Session s(clock); s.stop(); s.seconds() }\<close>, whose clock is a
  named object, reports 2. The block of \<open>main\<close>,
  \<open>{ Session s; sleep(2); s.stop(); s.seconds() }\<close>, whose clock is the temporary of the
  default argument, reports nothing: its \<open>stop()\<close> is a call through a dangling
  reference.
\<close>

theorem default_session_delay_not_reported:
  "main_mock_block TimeClock empty_store \<lparr>calendar_time = 1000\<rparr> \<lparr>calendar_time = 1002\<rparr> =
     Inr 2 \<and>
   main_default_block empty_store \<lparr>calendar_time = 1000\<rparr> \<lparr>calendar_time = 1002\<rparr> =
     Inl DanglingReference"
  by (simp add: main_mock_block_def main_default_block_def Session_default_def Session_ctor_def
      Session_stop_def Session_seconds_def alloc_def destroy_def empty_store_def TimeClock_def
      TimeClock_start_def TimeClock_stop_def std_time_def)

end
